theory Spec2Isabelle
  imports Main "HOL-Library.AList"
begin

section \<open>The flow backend: \<^verbatim>\<open>backend/server.py\<close>\<close>

text \<open>
  A shallow embedding of the request models, of \<^verbatim>\<open>create_output_model\<close>, of the
  \<^verbatim>\<open>/api/run-agent\<close> handler and of the code generator \<^verbatim>\<open>generate_python_code\<close> with its
  \<^verbatim>\<open>/api/generate-code\<close> handler. Python exceptions are values of a sum type (\<open>Inl\<close> is
  the raised exception); the \<^verbatim>\<open>while\<close> loop of the generator is a partial function whose
  value \<open>None\<close> means that the loop never exits.
\<close>

subsection \<open>Request models\<close>

text \<open>
  A Python \<^verbatim>\<open>float\<close> is carried by its \<^verbatim>\<open>repr\<close> text: the code only passes floats on or
  formats them, it never computes with them.
\<close>

datatype pyfloat = PyFloat (float_repr: string)

record output_field =
  field_name :: string
  field_type :: string
  field_description :: "string option"

record output_structure =
  structure_name :: string
  structure_fields :: "output_field list"


record agent_config =
  label :: string
  model_provider :: string
  model_name :: string
  temperature :: pyfloat
  max_tokens :: int
  system_prompts :: "string list"
  response_tokens_limit :: int
  total_tokens_limit :: int
  output_structure :: "output_structure option"
  selected_output_fields :: "string list option"



record flow_node =
  node_id :: string
  node_type :: string
  config :: agent_config
  position :: "(string \<times> pyfloat) list"

record flow_edge =
  edge_id :: string
  source :: string
  target :: string

subsection \<open>Python dictionaries and truthiness\<close>


text \<open>\<^verbatim>\<open>x or ""\<close> and \<^verbatim>\<open>if x:\<close> for an optional string: \<^verbatim>\<open>None\<close> and \<^verbatim>\<open>""\<close> are falsy.\<close>

definition truthy_str :: "string option \<Rightarrow> bool" where
  "truthy_str x = (case x of None \<Rightarrow> False | Some s \<Rightarrow> s \<noteq> [])"

definition or_empty :: "string option \<Rightarrow> string" where
  "or_empty x = (case x of None \<Rightarrow> [] | Some s \<Rightarrow> s)"

subsection \<open>Exceptions\<close>

text \<open>
  Exceptions: the three the code generator can raise by a dictionary lookup, an attribute
  read or an index, the handler's \<^verbatim>\<open>HTTPException\<close>, pydantic's \<^verbatim>\<open>ValidationError\<close>, and
  \<open>OtherException\<close> for whatever else the agent library raises. The detail of an
  \<^verbatim>\<open>HTTPException\<close> is a text, or \<^verbatim>\<open>str(e)\<close> or \<^verbatim>\<open>e.errors()\<close> of a caught exception \<open>e\<close>,
  which are kept symbolic.
\<close>

datatype exn =
    HTTPException nat detail
  | ValidationError string
  | KeyError string
  | AttributeError string
  | IndexError
  | OtherException string
and detail = Text string | Str_of exn | Errors_of exn

subsection \<open>\<^verbatim>\<open>create_output_model\<close> (lines 88-107)\<close>

text \<open>
  The Python types the table \<^verbatim>\<open>field_types\<close> maps to, and \<^verbatim>\<open>Any\<close>, the default of the
  lookup \<^verbatim>\<open>field_types.get(field.type, Any)\<close>.
\<close>

datatype py_type = T_str | T_int | T_float | T_bool | T_List_str | T_Dict_str_Any | T_Any



text \<open>
  A class built by pydantic's \<^verbatim>\<open>create_model\<close>: its name and its fields.
\<close>

record output_model =
  model_class_name :: string
  model_fields :: "(string \<times> py_type \<times> string) list"



subsection \<open>\<^verbatim>\<open>run_agent\<close> (lines 109-201)\<close>

datatype model_client =
    OpenAIModel string string
  | AnthropicModel string string
  | GeminiModel string string

text \<open>
  The value \<^verbatim>\<open>result.data\<close> of an agent run, by the two tests the handler makes on it:
  \<^verbatim>\<open>isinstance(result.data, str)\<close> holds of \<open>Str_data\<close> alone and
  \<^verbatim>\<open>hasattr(result.data, '__dict__')\<close> of \<open>Object_data\<close> alone, which carries what
  \<^verbatim>\<open>str\<close> returns on the object and its \<^verbatim>\<open>__dict__\<close>. \<open>Plain_data\<close> is every other value
  (\<^verbatim>\<open>None\<close>, a number, a list, a dictionary).
\<close>

datatype 'v run_data =
    is_str: Str_data string
  | has_dict: Object_data string "(string \<times> 'v) list"
  | is_plain: Plain_data 'v

record ('v, 'u) run_result =
  run_data :: "'v run_data"
  run_usage :: "'u option"

record model_settings =
  settings_temperature :: pyfloat
  settings_max_tokens :: int
  settings_response_tokens_limit :: int
  settings_total_tokens_limit :: int

text \<open>
  \<^verbatim>\<open>Agent(model, system_prompt=..., result_type=...).run(prompt, model_settings=...)\<close> is
  the library \<^verbatim>\<open>pydantic_ai\<close>: a parameter of the handler, which returns a run result or
  raises. The result type \<open>None\<close> stands for \<^verbatim>\<open>str\<close>.
\<close>

type_synonym ('v, 'u) agent =
  "model_client \<Rightarrow> string \<Rightarrow> output_model option \<Rightarrow> string \<Rightarrow> model_settings
     \<Rightarrow> exn + ('v, 'u) run_result"







subsection \<open>Text: quotes, \<^verbatim>\<open>join\<close>, \<^verbatim>\<open>str\<close> of an integer\<close>

definition squote :: string where
  "squote = [CHR 0x27]"

definition dquote :: string where
  "dquote = [CHR 0x22]"

definition backslash :: string where
  "backslash = [CHR 0x5C]"

definition newline :: string where
  "newline = [CHR 0x0A]"

text \<open>\<^verbatim>\<open>sep.join(xs)\<close>.\<close>

fun join :: "string \<Rightarrow> string list \<Rightarrow> string" where
  "join sep [] = []"
| "join sep [x] = x"
| "join sep (x # y # ys) = x @ sep @ join sep (y # ys)"

fun digits :: "nat \<Rightarrow> string" where
  "digits n =
     (if n < 10 then [''0123456789'' ! n]
      else digits (n div 10) @ [''0123456789'' ! (n mod 10)])"

text \<open>An integer in an f-string: its decimal text.\<close>

definition str_int :: "int \<Rightarrow> string" where
  "str_int i = (if i < 0 then ''-'' @ digits (nat (- i)) else digits (nat i))"

subsection \<open>Dictionary and attribute reads that raise\<close>

text \<open>\<^verbatim>\<open>d[k]\<close> raises \<^verbatim>\<open>KeyError\<close> on a key that is absent.\<close>

definition dict_lookup :: "(string \<times> 'v) list \<Rightarrow> string \<Rightarrow> exn + 'v" where
  "dict_lookup d k = (case map_of d k of None \<Rightarrow> Inl (KeyError k) | Some v \<Rightarrow> Inr v)"

text \<open>The names \<^verbatim>\<open>class AgentConfig\<close> declares (lines 49-60).\<close>

definition AgentConfig_fields :: "string list" where
  "AgentConfig_fields =
     [''label'', ''model_provider'', ''model_name'', ''temperature'', ''max_tokens'',
      ''system_prompts'', ''response_tokens_limit'', ''total_tokens_limit'',
      ''output_structure'', ''selected_output_fields'']"

text \<open>
  An attribute read \<^verbatim>\<open>cfg.name\<close> on an \<^verbatim>\<open>AgentConfig\<close>, where the generator spells the name
  otherwise than the class: a pydantic model has the attributes its class declares, and
  the read of any other name raises \<^verbatim>\<open>AttributeError\<close>. The argument \<open>val\<close> is the value
  the code goes on with after the read; it types the rest of the statement.
\<close>

definition getattr :: "string \<Rightarrow> (agent_config \<Rightarrow> 'a) \<Rightarrow> agent_config \<Rightarrow> exn + 'a" where
  "getattr name val cfg =
     (if name \<in> set AgentConfig_fields then Inr (val cfg) else Inl (AttributeError name))"

text \<open>\<^verbatim>\<open>xs[0]\<close>.\<close>

definition index0 :: "'a list \<Rightarrow> exn + 'a" where
  "index0 xs = (case xs of [] \<Rightarrow> Inl IndexError | x # _ \<Rightarrow> Inr x)"

text \<open>\<^verbatim>\<open>if xs:\<close> for an optional list: \<^verbatim>\<open>None\<close> and \<^verbatim>\<open>[]\<close> are falsy.\<close>

definition truthy_list :: "'a list option \<Rightarrow> bool" where
  "truthy_list x = (case x of None \<Rightarrow> False | Some xs \<Rightarrow> xs \<noteq> [])"

subsection \<open>\<^verbatim>\<open>generate_python_code\<close> (lines 218-348)\<close>

text \<open>Lines 219-228.\<close>

definition header_lines :: "string list" where
  "header_lines =
     [''from typing import Optional, List, Dict, Any, Union'',
      ''from pydantic import BaseModel, Field'',
      ''from pydantic_ai import Agent'',
      ''from pydantic_ai.models.openai import OpenAIModel'',
      ''from pydantic_ai.models.anthropic import AnthropicModel'',
      ''from pydantic_ai.models.gemini import GeminiModel'',
      [],
      ''# Output Models'']"

text \<open>Lines 231-244: the class text of a node's output structure.\<close>

definition field_str :: "output_field \<Rightarrow> string" where
  "field_str field =
     ''    '' @ field_name field @ '': '' @ field_type field @
     (if truthy_str (field_description field)
      then '' = Field(description='' @ dquote @ or_empty (field_description field) @ dquote @ '')''
      else [])"

definition model_lines :: "flow_node \<Rightarrow> string list" where
  "model_lines node =
     (case output_structure (config node) of
        None \<Rightarrow> []
      | Some os \<Rightarrow>
          [''class '' @ structure_name os @ ''(BaseModel):''] @
          map field_str (structure_fields os) @ [[]])"

text \<open>Lines 247-251.\<close>

definition run_flow_lines :: "string list" where
  "run_flow_lines =
     [''def run_flow(prompt: str, credentials: dict) -> List[Dict[str, Any]]:'',
      ''    results = []'',
      []]"

text \<open>Lines 331-346.\<close>

definition footer_lines :: "string list" where
  "footer_lines =
     [''    return results'',
      [],
      ''if __name__ == '__main__':'',
      ''    # Example usage'',
      ''    credentials = {'',
      ''        'openai_api_key': 'your-openai-key','',
      ''        'anthropic_api_key': 'your-anthropic-key','',
      ''        'google_api_key': 'your-google-key'' @ squote,
      ''    }'',
      ''    results = run_flow('Your prompt here', credentials)'',
      ''    for result in results:'',
      ''        print(f'' @ dquote @ ''Node {result['node_id']} output:'' @ dquote @ '')'',
      ''        print(result['result'])'',
      []]"

text \<open>
  The state of the generator: the list \<^verbatim>\<open>code\<close>, the dictionary \<^verbatim>\<open>node_outputs\<close> and the
  set \<^verbatim>\<open>processed_nodes\<close>.
\<close>

record gen_state =
  code :: "string list"
  node_outputs :: "(string \<times> string) list"
  processed_nodes :: "string set"

text \<open>Line 258: a later node replaces an earlier one of the same id.\<close>

definition nodes_by_id :: "flow_node list \<Rightarrow> (string \<times> flow_node) list" where
  "nodes_by_id nodes = foldl (\<lambda>d node. AList.update (node_id node) node d) [] nodes"

text \<open>Lines 260-261.\<close>

definition get_input_nodes :: "flow_edge list \<Rightarrow> string \<Rightarrow> string list" where
  "get_input_nodes edges nid = map source (filter (\<lambda>edge. target edge = nid) edges)"

text \<open>Lines 276-280.\<close>

definition model_classes :: "(string \<times> string) list" where
  "model_classes =
     [(''openai'', ''OpenAIModel''), (''anthropic'', ''AnthropicModel''),
      (''google-gla'', ''GeminiModel'')]"

text \<open>Lines 289-290: the inner loop over the fields selected in one input node.\<close>

fun append_fields ::
  "(string \<times> string) list \<Rightarrow> string \<Rightarrow> string list \<Rightarrow> string list \<Rightarrow> exn + string list" where
  "append_fields outputs input_id [] selected_fields = Inr selected_fields"
| "append_fields outputs input_id (field # rest) selected_fields =
     (case dict_lookup outputs input_id of
        Inl e \<Rightarrow> Inl e
      | Inr v \<Rightarrow> append_fields outputs input_id rest (selected_fields @ [v @ ''.'' @ field]))"

text \<open>Lines 286-290: the loop over the input nodes.\<close>

fun collect_fields ::
  "(string \<times> flow_node) list \<Rightarrow> (string \<times> string) list \<Rightarrow> string list \<Rightarrow> string list
     \<Rightarrow> exn + string list" where
  "collect_fields by_id outputs [] selected_fields = Inr selected_fields"
| "collect_fields by_id outputs (input_id # rest) selected_fields =
     (case dict_lookup by_id input_id of
        Inl e \<Rightarrow> Inl e
      | Inr input_node \<Rightarrow>
          (case getattr ''selectedOutputFields'' selected_output_fields (config input_node) of
             Inl e \<Rightarrow> Inl e
           | Inr sel \<Rightarrow>
               if truthy_list sel then
                 (case getattr ''selectedOutputFields'' selected_output_fields
                         (config input_node) of
                    Inl e \<Rightarrow> Inl e
                  | Inr sel' \<Rightarrow>
                      (case append_fields outputs input_id
                              (case sel' of None \<Rightarrow> [] | Some fs \<Rightarrow> fs) selected_fields of
                         Inl e \<Rightarrow> Inl e
                       | Inr selected_fields' \<Rightarrow>
                           collect_fields by_id outputs rest selected_fields'))
               else collect_fields by_id outputs rest selected_fields))"

text \<open>Lines 283-292.\<close>

definition input_construction ::
  "(string \<times> flow_node) list \<Rightarrow> (string \<times> string) list \<Rightarrow> string list \<Rightarrow> exn + string" where
  "input_construction by_id outputs input_nodes =
     (if input_nodes \<noteq> [] then
        (case collect_fields by_id outputs input_nodes [] of
           Inl e \<Rightarrow> Inl e
         | Inr selected_fields \<Rightarrow>
             if selected_fields \<noteq> [] then
               Inr (''prompt + '' @ squote @ backslash @ ''n'' @ backslash @
                    ''nContext: ' + ' '.join([str(x) for x in ['' @
                    join '', '' selected_fields @ '']])'')
             else Inr ''prompt'')
      else Inr ''prompt'')"

text \<open>
  Lines 299-327: the lines of one node. The elements of the list are evaluated in order;
  those that read an attribute of the configuration can raise.
\<close>

definition node_lines :: "flow_node \<Rightarrow> string \<Rightarrow> string \<Rightarrow> string \<Rightarrow> string \<Rightarrow> exn + string list" where
  "node_lines node model_setup var_name input_text result_type =
     (case getattr ''systemPrompts'' system_prompts (config node) of
        Inl e \<Rightarrow> Inl e
      | Inr prompts \<Rightarrow>
     (case (if prompts \<noteq> [] then
              (case getattr ''systemPrompts'' system_prompts (config node) of
                 Inl e \<Rightarrow> Inl e
               | Inr prompts' \<Rightarrow> index0 prompts')
            else Inr []) of
        Inl e \<Rightarrow> Inl e
      | Inr system_prompt \<Rightarrow>
     (case getattr ''maxTokens'' max_tokens (config node) of
        Inl e \<Rightarrow> Inl e
      | Inr max_tokens_value \<Rightarrow>
     (case getattr ''responseTokensLimit'' response_tokens_limit (config node) of
        Inl e \<Rightarrow> Inl e
      | Inr response_limit \<Rightarrow>
     (case getattr ''totalTokensLimit'' total_tokens_limit (config node) of
        Inl e \<Rightarrow> Inl e
      | Inr total_limit \<Rightarrow>
          Inr [''    # '' @ label (config node),
               ''    model = '' @ model_setup @ ''('',
               ''        '' @ squote @ model_name (config node) @ squote @ '','',
               ''        api_key=credentials['' @ squote @ model_provider (config node) @
                 ''_api_key'' @ squote @ '']'',
               ''    )'',
               [],
               ''    agent = Agent('',
               ''        model,'',
               ''        system_prompt='' @ squote @ system_prompt @ squote @ '','',
               ''        result_type='' @ result_type,
               ''    )'',
               [],
               ''    '' @ var_name @ '' = agent.run_sync('',
               ''        '' @ input_text @ '','',
               ''        model_settings={'',
               ''            'temperature': '' @ float_repr (temperature (config node)) @ '','',
               ''            'max_tokens': '' @ str_int max_tokens_value @ '','',
               ''            'response_tokens_limit': '' @ str_int response_limit @ '','',
               ''            'total_tokens_limit': '' @ str_int total_limit,
               ''        }'',
               ''    ).data'',
               [],
               ''    results.append({'',
               ''        'node_id': '' @ squote @ node_id node @ squote @ '','',
               ''        'result': '' @ var_name,
               ''    })'',
               []])))))"

text \<open>
  Lines 272-329: the body of the \<^verbatim>\<open>for\<close> loop for a node that is not processed and whose
  inputs all are. An exception leaves the body; the state it had reached is lost.
\<close>

definition emit_node ::
  "(string \<times> flow_node) list \<Rightarrow> flow_edge list \<Rightarrow> flow_node \<Rightarrow> gen_state \<Rightarrow> exn + gen_state" where
  "emit_node by_id edges node st =
     (let input_nodes = get_input_nodes edges (node_id node);
          var_name = ''result_'' @ node_id node;
          outputs = AList.update (node_id node) var_name (node_outputs st)
      in case dict_lookup model_classes (model_provider (config node)) of
           Inl e \<Rightarrow> Inl e
         | Inr model_setup \<Rightarrow>
        (case input_construction by_id outputs input_nodes of
           Inl e \<Rightarrow> Inl e
         | Inr input_text \<Rightarrow>
        (let result_type =
               (case output_structure (config node) of
                  None \<Rightarrow> ''str'' | Some os \<Rightarrow> structure_name os)
         in case node_lines node model_setup var_name input_text result_type of
              Inl e \<Rightarrow> Inl e
            | Inr lines \<Rightarrow>
                Inr \<lparr>code = code st @ lines, node_outputs = outputs,
                     processed_nodes = insert (node_id node) (processed_nodes st)\<rparr>)))"

text \<open>Lines 264-329: one run of the \<^verbatim>\<open>for\<close> loop over the nodes still to visit.\<close>

fun scan_nodes ::
  "(string \<times> flow_node) list \<Rightarrow> flow_edge list \<Rightarrow> flow_node list \<Rightarrow> gen_state \<Rightarrow> exn + gen_state" where
  "scan_nodes by_id edges [] st = Inr st"
| "scan_nodes by_id edges (node # rest) st =
     (if node_id node \<in> processed_nodes st then scan_nodes by_id edges rest st
      else if \<not> list_all (\<lambda>n. n \<in> processed_nodes st) (get_input_nodes edges (node_id node))
      then scan_nodes by_id edges rest st
      else (case emit_node by_id edges node st of
              Inl e \<Rightarrow> Inl e
            | Inr st' \<Rightarrow> scan_nodes by_id edges rest st'))"

text \<open>
  Line 263: the \<^verbatim>\<open>while\<close> loop. It has no bound: \<open>None\<close> is the loop that never exits,
  \<open>Some (Inl e)\<close> the exception \<open>e\<close> that leaves it, \<open>Some (Inr st)\<close> its normal exit.
\<close>

partial_function (option) process_loop ::
  "flow_node list \<Rightarrow> flow_edge list \<Rightarrow> gen_state \<Rightarrow> (exn + gen_state) option" where
  "process_loop nodes edges st =
     (if card (processed_nodes st) < length nodes then
        (case scan_nodes (nodes_by_id nodes) edges nodes st of
           Inl e \<Rightarrow> Some (Inl e)
         | Inr st' \<Rightarrow> process_loop nodes edges st')
      else Some (Inr st))"

declare process_loop.simps [code]

definition initial_state :: "flow_node list \<Rightarrow> gen_state" where
  "initial_state nodes =
     \<lparr>code = header_lines @ concat (map model_lines nodes) @ run_flow_lines,
      node_outputs = [], processed_nodes = {}\<rparr>"

definition generate_python_code :: "flow_node list \<Rightarrow> flow_edge list \<Rightarrow> (exn + string) option" where
  "generate_python_code nodes edges =
     (case process_loop nodes edges (initial_state nodes) of
        None \<Rightarrow> None
      | Some (Inl e) \<Rightarrow> Some (Inl e)
      | Some (Inr st) \<Rightarrow> Some (Inr (join newline (code st @ footer_lines))))"

subsection \<open>\<^verbatim>\<open>generate_code\<close> (lines 350-356)\<close>

record generate_code_request =
  request_nodes :: "flow_node list"
  request_edges :: "flow_edge list"

definition generate_code :: "generate_code_request \<Rightarrow> (exn + (string \<times> string) list) option" where
  "generate_code request =
     (case generate_python_code (request_nodes request) (request_edges request) of
        None \<Rightarrow> None
      | Some (Inl e) \<Rightarrow> Some (Inl (HTTPException 500 (Str_of e)))
      | Some (Inr text) \<Rightarrow> Some (Inr [(''code'', text)]))"

subsection \<open>Notions used in the statements\<close>

text \<open>
  The first node, in the order of the node list, that no edge targets: the node the first
  scan reaches, since no node is processed yet.
\<close>

definition first_ready :: "flow_node list \<Rightarrow> flow_edge list \<Rightarrow> flow_node option" where
  "first_ready nodes edges = find (\<lambda>node. get_input_nodes edges (node_id node) = []) nodes"

text \<open>The exception the body of the scan raises on such a node.\<close>

definition ready_error :: "flow_node \<Rightarrow> exn" where
  "ready_error node =
     (if model_provider (config node) \<in> set (map fst model_classes)
      then AttributeError ''systemPrompts''
      else KeyError (model_provider (config node)))"


subsection \<open>Example graphs and requests\<close>

definition example_config ::
  "string \<Rightarrow> output_structure option \<Rightarrow> string list option \<Rightarrow> agent_config" where
  "example_config provider structure selection =
     \<lparr>label = ''Agent'', model_provider = provider, model_name = ''model-1'',
      temperature = PyFloat ''0.7'', max_tokens = 1000, system_prompts = [''Be brief.''],
      response_tokens_limit = 500, total_tokens_limit = 2000,
      output_structure = structure, selected_output_fields = selection\<rparr>"

definition example_node :: "string \<Rightarrow> string \<Rightarrow> flow_node" where
  "example_node nid provider =
     \<lparr>node_id = nid, node_type = ''agent'', config = example_config provider None None,
      position = []\<rparr>"

definition summary_structure :: output_structure where
  "summary_structure =
     \<lparr>structure_name = ''Summary'',
      structure_fields =
        [\<lparr>field_name = ''summary'', field_type = ''str'', field_description = None\<rparr>]\<rparr>"

definition selecting_node :: "string \<Rightarrow> string list \<Rightarrow> flow_node" where
  "selecting_node nid selection =
     \<lparr>node_id = nid, node_type = ''agent'',
      config = example_config ''openai'' (Some summary_structure) (Some selection),
      position = []\<rparr>"

definition example_edge :: "string \<Rightarrow> string \<Rightarrow> flow_edge" where
  "example_edge s t = \<lparr>edge_id = s @ ''-'' @ t, source = s, target = t\<rparr>"





section \<open>Properties\<close>

subsection \<open>The outcome of the generator\<close>

lemmas example_defs =
  example_config_def example_node_def summary_structure_def selecting_node_def example_edge_def

lemma list_all_False: "list_all (\<lambda>n. False) xs \<longleftrightarrow> xs = []"
  by (cases xs) simp_all

lemma getattr_systemPrompts:
  "getattr ''systemPrompts'' val cfg = Inl (AttributeError ''systemPrompts'')"
  by (simp add: getattr_def AgentConfig_fields_def)

text \<open>No node gets its lines: the first attribute read of the list raises.\<close>

lemma node_lines_raises:
  "node_lines node model_setup var_name input_text result_type
     = Inl (AttributeError ''systemPrompts'')"
  by (simp add: node_lines_def getattr_systemPrompts)

lemma emit_node_ready:
  assumes "get_input_nodes edges (node_id node) = []"
  shows "emit_node by_id edges node st = Inl (ready_error node)"
  by (simp add: emit_node_def ready_error_def Let_def dict_lookup_def model_classes_def
      input_construction_def node_lines_raises assms)

text \<open>
  A scan that starts with no node processed skips every node that has an input and raises
  on the first one that has none.
\<close>

lemma scan_nodes_fresh:
  assumes "processed_nodes st = {}"
  shows "scan_nodes by_id edges ns st =
           (case find (\<lambda>node. get_input_nodes edges (node_id node) = []) ns of
              None \<Rightarrow> Inr st
            | Some node \<Rightarrow> Inl (ready_error node))"
  using assms by (induction ns) (simp_all add: list_all_False emit_node_ready)

lemma process_loop_empty: "process_loop [] edges st = Some (Inr st)"
  by (subst process_loop.simps) simp

lemma process_loop_raises:
  assumes "processed_nodes st = {}" and "first_ready nodes edges = Some node"
  shows "process_loop nodes edges st = Some (Inl (ready_error node))"
proof -
  from assms(2) have "nodes \<noteq> []"
    by (auto simp: first_ready_def)
  then show ?thesis
    using assms by (subst process_loop.simps) (simp add: scan_nodes_fresh first_ready_def)
qed

text \<open>
  A state with no node processed, in a graph where every node has an input, is left
  unchanged by a scan: no approximation of the loop gives a result there.
\<close>

lemma process_loop_stuck:
  assumes "process_loop nodes edges st = Some r"
  shows "\<not> (processed_nodes st = {} \<and> nodes \<noteq> [] \<and> first_ready nodes edges = None)"
  using assms
proof (rule process_loop.raw_induct[rotated 1])
  fix loop nds eds s y
  assume IH: "\<And>nds eds s y. loop nds eds s = Some y \<Longrightarrow>
                \<not> (processed_nodes s = {} \<and> nds \<noteq> [] \<and> first_ready nds eds = None)"
    and step: "(if card (processed_nodes s) < length nds
                then case scan_nodes (nodes_by_id nds) eds nds s of
                       Inl e \<Rightarrow> Some (Inl e) | Inr s' \<Rightarrow> loop nds eds s'
                else Some (Inr s)) = Some y"
  show "\<not> (processed_nodes s = {} \<and> nds \<noteq> [] \<and> first_ready nds eds = None)"
  proof
    assume stuck: "processed_nodes s = {} \<and> nds \<noteq> [] \<and> first_ready nds eds = None"
    then have "scan_nodes (nodes_by_id nds) eds nds s = Inr s"
      by (simp add: scan_nodes_fresh first_ready_def)
    with stuck step have "loop nds eds s = Some y"
      by simp
    with IH stuck show False
      by blast
  qed
qed

lemma process_loop_diverges:
  assumes "processed_nodes st = {}" and "nodes \<noteq> []" and "first_ready nodes edges = None"
  shows "process_loop nodes edges st = None"
  using assms process_loop_stuck by (cases "process_loop nodes edges st") blast+

text \<open>
  The three outcomes of \<^verbatim>\<open>generate_python_code\<close>: the text without any node lines for the
  empty node list, an exception on the first node without an input, and no outcome when
  every node has an input.
\<close>

lemma generate_outcome:
  "generate_python_code nodes edges =
     (if nodes = [] then Some (Inr (join newline (header_lines @ run_flow_lines @ footer_lines)))
      else case first_ready nodes edges of
             None \<Rightarrow> None
           | Some node \<Rightarrow> Some (Inl (ready_error node)))"
  by (auto simp: generate_python_code_def initial_state_def process_loop_empty
      process_loop_raises process_loop_diverges split: option.splits)

lemmas outcome_simps =
  generate_outcome first_ready_def get_input_nodes_def ready_error_def model_classes_def

text \<open>
  The body of the scan looks the provider up before anything else: on a node whose
  provider is not a key of the table it raises \<^verbatim>\<open>KeyError\<close>, in any state.
\<close>

lemma emit_node_bad_provider:
  assumes "model_provider (config node) \<notin> set (map fst model_classes)"
  shows "emit_node by_id edges node st = Inl (KeyError (model_provider (config node)))"
proof -
  have "map_of model_classes (model_provider (config node)) = None"
    using assms by (simp add: map_of_eq_None_iff)
  then show ?thesis
    by (simp add: emit_node_def Let_def dict_lookup_def)
qed

subsection \<open>Nodes with another selection\<close>





subsection \<open>The dictionary of the dynamic model\<close>



section \<open>The claims\<close>

subsection \<open>C1: a graph with a cycle\<close>

text \<open>
  Claim C1 asks that on every graph with a cycle, a self-loop included, the loop of
  \<^verbatim>\<open>generate_python_code\<close> ends and reports a cycle. On the graph of one node \<open>A\<close> with
  the edge from \<open>A\<close> to \<open>A\<close> the loop never exits: \<open>A\<close> waits for itself, every scan skips
  it, and \<^verbatim>\<open>len(processed_nodes) < len(nodes)\<close> stays \<open>0 < 1\<close>.
\<close>

theorem self_loop_never_exits:
  "generate_python_code [example_node ''A'' ''openai''] [example_edge ''A'' ''A''] = None"
  by (simp add: outcome_simps example_defs)

subsection \<open>C2: the order on an acyclic graph\<close>

text \<open>
  Claim C2 asks that on every acyclic graph the loop ends with the nodes in a topological
  order. On the chain of \<open>A\<close> and \<open>B\<close> with the edge from \<open>A\<close> to \<open>B\<close> the generator raises
  \<^verbatim>\<open>AttributeError\<close> while it builds the lines of \<open>A\<close>, before \<open>A\<close> is added to
  \<^verbatim>\<open>processed_nodes\<close>: no order is produced.
\<close>

theorem acyclic_chain_raises:
  "generate_python_code [example_node ''A'' ''openai'', example_node ''B'' ''openai'']
     [example_edge ''A'' ''B''] = Some (Inl (AttributeError ''systemPrompts''))"
  by (simp add: outcome_simps example_defs)

subsection \<open>C3: the tie-break\<close>

text \<open>
  Claim C3 asks that two nodes without inputs, declared as \<open>A\<close> then \<open>B\<close>, are emitted in
  that order. The generator raises \<^verbatim>\<open>AttributeError\<close> on \<open>A\<close> and emits neither.
\<close>

theorem two_roots_raise:
  "generate_python_code [example_node ''A'' ''openai'', example_node ''B'' ''openai''] []
     = Some (Inl (AttributeError ''systemPrompts''))"
  by (simp add: outcome_simps example_defs)

subsection \<open>C4: a type tag outside the table\<close>




subsection \<open>C5: a selected field the structure does not declare\<close>



subsection \<open>C6: the context of a node with two inputs\<close>

text \<open>
  Claim C6 asks that a node \<open>C\<close> with the inputs \<open>A\<close> and \<open>B\<close>, each selecting its field
  \<^verbatim>\<open>summary\<close>, gets the prompt followed by the context of the two values, and the prompt
  alone when no input selects a field. The generator raises \<^verbatim>\<open>AttributeError\<close> on \<open>A\<close>: the
  input text of \<open>C\<close> is never built.
\<close>

theorem context_graph_raises:
  "generate_python_code
     [selecting_node ''A'' [''summary''], selecting_node ''B'' [''summary''],
      example_node ''C'' ''openai'']
     [example_edge ''A'' ''C'', example_edge ''B'' ''C'']
     = Some (Inl (AttributeError ''systemPrompts''))"
  by (simp add: outcome_simps example_defs)

subsection \<open>C7: a provider outside the table\<close>

text \<open>
  Claim C7 asks that a node with an unknown provider makes the generator fail on the
  provider wherever the node is in the order. With the node \<open>B\<close> of provider \<^verbatim>\<open>unknown\<close>
  declared after \<open>A\<close>, the generator raises the \<^verbatim>\<open>AttributeError\<close> of the read of
  \<^verbatim>\<open>systemPrompts\<close> on \<open>A\<close>; the lookup of lines 276-280, which raises on \<open>B\<close> whenever
  \<open>B\<close> is reached, never runs for it.
\<close>

theorem bad_provider_never_looked_up:
  "generate_python_code [example_node ''A'' ''openai'', example_node ''B'' ''unknown''] []
     = Some (Inl (AttributeError ''systemPrompts''))"
  by (simp add: outcome_simps example_defs)

subsection \<open>C8: the result that is neither a string nor an object\<close>



subsection \<open>C10: a graph that is not empty\<close>

text \<open>
  Claim C10 says that for every node list that is not empty \<^verbatim>\<open>generate_python_code\<close> raises,
  so that the handler answers with an error. On the cycle of \<open>A\<close> and \<open>B\<close> nothing is
  raised and nothing is returned: the handler has no answer.
\<close>

theorem cycle_neither_raises_nor_returns:
  "generate_code
     \<lparr>request_nodes = [example_node ''A'' ''openai'', example_node ''B'' ''openai''],
      request_edges = [example_edge ''A'' ''B'', example_edge ''B'' ''A'']\<rparr> = None"
  by (simp add: generate_code_def outcome_simps example_defs)

text \<open>
  Claim C10 as amended: for a node list that is not empty the handler never answers with
  generated source, and when some node has no input it answers with the status 500 that
  wraps the exception raised on the first such node: the \<^verbatim>\<open>AttributeError\<close> of the read of
  \<^verbatim>\<open>systemPrompts\<close>, or the \<^verbatim>\<open>KeyError\<close> of a provider outside the table.
\<close>

theorem nonempty_graph_no_source:
  assumes "request_nodes request \<noteq> []"
  shows "generate_code request \<noteq> Some (Inr out) \<and>
         (first_ready (request_nodes request) (request_edges request) = Some node \<longrightarrow>
          generate_code request = Some (Inl (HTTPException 500 (Str_of (ready_error node)))))"
  using assms by (simp add: generate_code_def generate_outcome split: option.splits)

text \<open>The amended claim C10 on the graph of the single node \<open>A\<close>.\<close>

theorem nonempty_graph_no_source_witness:
  "request_nodes \<lparr>request_nodes = [example_node ''A'' ''openai''], request_edges = []\<rparr> \<noteq> [] \<and>
   first_ready [example_node ''A'' ''openai''] [] = Some (example_node ''A'' ''openai'') \<and>
   generate_code \<lparr>request_nodes = [example_node ''A'' ''openai''], request_edges = []\<rparr>
     = Some (Inl (HTTPException 500 (Str_of (AttributeError ''systemPrompts''))))"
proof -
  have n: "request_nodes \<lparr>request_nodes = [example_node ''A'' ''openai''], request_edges = []\<rparr> \<noteq> []"
    by simp
  have f: "first_ready [example_node ''A'' ''openai''] [] = Some (example_node ''A'' ''openai'')"
    by (simp add: first_ready_def get_input_nodes_def)
  have e: "ready_error (example_node ''A'' ''openai'') = AttributeError ''systemPrompts''"
    by (simp add: ready_error_def model_classes_def example_defs)
  show ?thesis
    using n f e nonempty_graph_no_source [OF n, where node = "example_node ''A'' ''openai''"]
    by simp
qed

end
